theory Spec2Isabelle
  imports
    Complex_Main
    "HOL-Library.Char_ord"
    "HOL-Library.List_Lexorder"
    "HOL-Library.Product_Lexorder"
    "HOL-Library.Sublist"
    "HOL-Library.Multiset"
    "HOL-Library.Log_Nat"
    "HOL-Library.Word"
begin

section \<open>Numbers as pandas holds them\<close>

text \<open>
  A decimal column (Sales, Profit, Discount) is a float64 column: every cell and every
  intermediate result is an IEEE 754 double, that is a finite value, an infinity or NaN
  (which is also how pandas marks a missing cell). The sign of zero is not modelled.
  The linear order on doubles is the one \<open>sort_values\<close> needs for a descending sort:
  numbers by value between the infinities, and NaN below them all, because pandas puts
  missing values last whatever the direction.
\<close>

datatype float64 = NaN | NegInf | Fin rat | PosInf

fun sort_rank :: "float64 \<Rightarrow> nat \<times> rat" where
  "sort_rank NaN = (0, 0)"
| "sort_rank NegInf = (1, 0)"
| "sort_rank (Fin x) = (2, x)"
| "sort_rank PosInf = (3, 0)"

instantiation float64 :: linorder
begin

definition less_eq_float64 :: "float64 \<Rightarrow> float64 \<Rightarrow> bool" where
  "less_eq_float64 a b = (sort_rank a \<le> sort_rank b)"

definition less_float64 :: "float64 \<Rightarrow> float64 \<Rightarrow> bool" where
  "less_float64 a b = (sort_rank a < sort_rank b)"

instance
proof
  fix x y z :: float64
  show "(x < y) = (x \<le> y \<and> \<not> y \<le> x)"
    unfolding less_eq_float64_def less_float64_def by auto
  show "x \<le> x"
    unfolding less_eq_float64_def by simp
  show "x \<le> y \<Longrightarrow> y \<le> z \<Longrightarrow> x \<le> z"
    unfolding less_eq_float64_def by simp
  show "x \<le> y \<Longrightarrow> y \<le> x \<Longrightarrow> x = y"
    unfolding less_eq_float64_def by (cases x; cases y) auto
  show "x \<le> y \<or> y \<le> x"
    unfolding less_eq_float64_def by auto
qed

end

text \<open>Rounding to the nearest integer, a tie to the even one (\<open>rint\<close>).\<close>

definition round_half_even :: "rat \<Rightarrow> int" where
  "round_half_even x =
     (let f = \<lfloor>x\<rfloor>; d = x - of_int f in
      if d < 1 / 2 then f else if 1 / 2 < d then f + 1 else if even f then f else f + 1)"

definition pow2 :: "int \<Rightarrow> rat" where
  "pow2 e = (if 0 \<le> e then 2 ^ nat e else 1 / 2 ^ nat (- e))"

text \<open>
  The binary exponent of a non-zero number: \<open>pow2 e \<le> \<bar>x\<bar> < pow2 (e + 1)\<close>, found
  from the bit length of the integer part of \<open>\<bar>x\<bar>\<close>, or of its reciprocal when
  \<open>\<bar>x\<bar> < 1\<close>.
\<close>

definition ilog2 :: "rat \<Rightarrow> int" where
  "ilog2 x =
     (if 1 \<le> \<bar>x\<bar> then bitlen \<lfloor>\<bar>x\<bar>\<rfloor> - 1 else - bitlen (\<lceil>1 / \<bar>x\<bar>\<rceil> - 1))"

text \<open>
  The double an exact result is rounded to: the nearest number with a 53-bit significand
  (a tie to the even significand), with the exponent no lower than that of the subnormal
  numbers, and an infinity when the rounded magnitude reaches \<open>2 ^ 1024\<close>, which it can
  only at the binary exponent 1023 or above, with a significand of \<open>2 ^ (1076 - e)\<close> or
  more.
\<close>

definition round_double :: "rat \<Rightarrow> float64" where
  "round_double x =
     (if x = 0 then Fin 0
      else let e = ilog2 x;
               u = pow2 (max e (- 1022) - 52);
               m = round_half_even (x / u)
           in if e < 1023 then Fin (of_int m * u)
              else if pow2 (1076 - e) \<le> \<bar>of_int m\<bar> then (if 0 < x then PosInf else NegInf)
              else Fin (of_int m * u))"

definition representable :: "rat \<Rightarrow> bool" where
  "representable x = (round_double x = Fin x)"

definition isnan :: "float64 \<Rightarrow> bool" where
  "isnan v = (v = NaN)"

definition is_finite :: "float64 \<Rightarrow> bool" where
  "is_finite v = (case v of Fin x \<Rightarrow> True | _ \<Rightarrow> False)"

definition value_of :: "float64 \<Rightarrow> rat" where
  "value_of v = (case v of Fin x \<Rightarrow> x | _ \<Rightarrow> 0)"

text \<open>float64 addition.\<close>

fun fadd :: "float64 \<Rightarrow> float64 \<Rightarrow> float64" where
  "fadd (Fin a) (Fin b) = round_double (a + b)"
| "fadd NaN b = NaN"
| "fadd a NaN = NaN"
| "fadd PosInf NegInf = NaN"
| "fadd NegInf PosInf = NaN"
| "fadd PosInf b = PosInf"
| "fadd a PosInf = PosInf"
| "fadd NegInf b = NegInf"
| "fadd a NegInf = NegInf"

text \<open>float64 multiplication and division by a positive finite constant, and \<open>rint\<close>.\<close>

definition fmul_const :: "float64 \<Rightarrow> rat \<Rightarrow> float64" where
  "fmul_const v c = (case v of Fin a \<Rightarrow> round_double (a * c) | _ \<Rightarrow> v)"

definition fdiv_const :: "float64 \<Rightarrow> rat \<Rightarrow> float64" where
  "fdiv_const v c = (case v of Fin a \<Rightarrow> round_double (a / c) | _ \<Rightarrow> v)"

definition rint :: "float64 \<Rightarrow> float64" where
  "rint v = (case v of Fin a \<Rightarrow> Fin (of_int (round_half_even a)) | _ \<Rightarrow> v)"

text \<open>
  An integer column (Quantity) is an int64 column: 64-bit two's complement, read as a
  signed number by \<open>sint\<close>; its arithmetic wraps around.
\<close>

type_synonym int64 = "64 word"

definition to_float64 :: "int64 \<Rightarrow> float64" where
  "to_float64 q = round_double (of_int (sint q))"

section \<open>Data model of the dashboard (app.py)\<close>

text \<open>
  The dashboard reads three tables with pandas and derives every number it shows from
  them. A table is modelled as the list of its rows, a row as a record of the columns
  that app.py reads. String columns are byte strings compared lexicographically by
  character code, which is how Python orders the Latin-1 text the files hold. A cell of
  the Order Date column is a triple (year, month, day) as written in the file; triples
  are ordered lexicographically, which is the chronological order on dates. Every row
  has a grouping key and an order identifier: pandas drops a row whose grouping key is
  missing, and that case is not part of this model.
\<close>

type_synonym date = "int \<times> nat \<times> nat"

definition year_of :: "date \<Rightarrow> int" where
  "year_of d = fst d"

definition month_of :: "date \<Rightarrow> nat" where
  "month_of d = fst (snd d)"

definition day_of :: "date \<Rightarrow> nat" where
  "day_of d = snd (snd d)"

text \<open>The numeric metric columns shared by Superstore.csv and clustered_data.csv.\<close>

record metrics =
  sales :: float64
  profit :: float64
  discount :: float64
  quantity :: int64

text \<open>One row of data/Superstore.csv (the columns app.py reads).\<close>

record txn = metrics +
  order_id :: string
  order_date :: date
  category :: string
  sub_category :: string
  region :: string
  segment :: string

text \<open>One row of data/clustered_data.csv.\<close>

record cluster_point = metrics +
  cluster :: int

text \<open>One row of data/forecast_sales.csv; \<open>ds\<close> is read as text (no parse_dates).\<close>

record forecast_row =
  ds :: string
  yhat :: rat
  yhat_lower :: rat
  yhat_upper :: rat

datatype py_error = KeyError string | AttributeError | TypeError | OutOfBoundsDatetime

section \<open>The pandas operations app.py calls\<close>

text \<open>
  \<open>Series.sum()\<close> and the \<open>sum\<close> of a group. On a float64 column the missing cells are
  left out and the rest is accumulated from 0 in row order, every addition rounded to a
  double. (pandas may associate the additions of a long column differently; that changes
  the result only when some addition rounds.) On an int64 column the additions wrap.
\<close>

definition series_sum :: "float64 list \<Rightarrow> float64" where
  "series_sum xs = foldl fadd (Fin 0) (filter (\<lambda>v. \<not> isnan v) xs)"

definition series_sum_int64 :: "int64 list \<Rightarrow> int64" where
  "series_sum_int64 xs = foldl (+) 0 xs"

text \<open>\<open>Series.nunique()\<close>: the number of distinct values of the column.\<close>

definition nunique :: "'a list \<Rightarrow> nat" where
  "nunique xs = length (remdups xs)"

text \<open>
  \<open>df.groupby(key)\<close> with the default \<open>sort=True\<close>: one group per distinct key
  value that occurs, the groups in ascending key order, each group holding its rows in
  their original order.
\<close>

definition group_keys :: "'k::linorder list \<Rightarrow> 'k list" where
  "group_keys ks = sort (remdups ks)"

definition groupby :: "('r \<Rightarrow> 'k::linorder) \<Rightarrow> 'r list \<Rightarrow> ('k \<times> 'r list) list" where
  "groupby key rows =
     map (\<lambda>k. (k, filter (\<lambda>r. key r = k) rows)) (group_keys (map key rows))"

text \<open>\<open>[['Sales', 'Profit']].sum().reset_index()\<close>: one row (key, Sales, Profit) per group.\<close>

definition sum_sales_profit ::
  "('k \<times> ('a metrics_scheme) list) list \<Rightarrow> ('k \<times> float64 \<times> float64) list" where
  "sum_sales_profit gs =
     map (\<lambda>(k, g). (k, series_sum (map sales g), series_sum (map profit g))) gs"

text \<open>
  \<open>sort_values(by='Sales', ascending=False)\<close>. pandas reverses the rows, sorts
  ascending and reverses the result. The default sort kind (quicksort) fixes nothing
  about the relative position of rows with equal Sales; the model sorts stably, and only
  properties that hold for every sorting algorithm are proved of it.
\<close>

definition sort_values_sales_desc ::
  "('k \<times> float64 \<times> float64) list \<Rightarrow> ('k \<times> float64 \<times> float64) list" where
  "sort_values_sales_desc t = rev (sort_key (\<lambda>r. fst (snd r)) (rev t))"

text \<open>\<open>df[mask]\<close>: the rows at the positions where the boolean mask is True.\<close>

definition boolean_index :: "bool list \<Rightarrow> 'a list \<Rightarrow> 'a list" where
  "boolean_index flags xs = map snd (filter fst (zip flags xs))"

section \<open>Overview page: KPIs (lines 151-154)\<close>

record kpis =
  total_sales :: float64
  total_profit :: float64
  total_orders :: nat
  total_quantity :: int64

definition overview_kpis :: "txn list \<Rightarrow> kpis" where
  "overview_kpis df =
     \<lparr> total_sales = series_sum (map sales df),
       total_profit = series_sum (map profit df),
       total_orders = nunique (map order_id df),
       total_quantity = series_sum_int64 (map quantity df) \<rparr>"

section \<open>Category, Region and Segment pages: group summaries\<close>

definition cat_summary :: "txn list \<Rightarrow> (string \<times> float64 \<times> float64) list" where
  "cat_summary df = sum_sales_profit (groupby category df)"

definition region_summary :: "txn list \<Rightarrow> (string \<times> float64 \<times> float64) list" where
  "region_summary df = sum_sales_profit (groupby region df)"

definition segment_summary :: "txn list \<Rightarrow> (string \<times> float64 \<times> float64) list" where
  "segment_summary df = sum_sales_profit (groupby segment df)"

definition subcat_summary :: "txn list \<Rightarrow> ((string \<times> string) \<times> float64 \<times> float64) list" where
  "subcat_summary df = sum_sales_profit (groupby (\<lambda>r. (category r, sub_category r)) df)"

text \<open>The tables shown under the charts (lines 301, 347, 392).\<close>

definition subcat_table :: "txn list \<Rightarrow> ((string \<times> string) \<times> float64 \<times> float64) list" where
  "subcat_table df = sort_values_sales_desc (subcat_summary df)"

definition region_table :: "txn list \<Rightarrow> (string \<times> float64 \<times> float64) list" where
  "region_table df = sort_values_sales_desc (region_summary df)"

definition segment_table :: "txn list \<Rightarrow> (string \<times> float64 \<times> float64) list" where
  "segment_table df = sort_values_sales_desc (segment_summary df)"

section \<open>The Order Date column\<close>

definition is_leap :: "int \<Rightarrow> bool" where
  "is_leap y = (if y mod 400 = 0 then True else if y mod 100 = 0 then False else y mod 4 = 0)"

definition days_in_month :: "int \<Rightarrow> nat \<Rightarrow> nat" where
  "days_in_month y m =
     (if m = 2 then (if is_leap y then 29 else 28)
      else if m = 4 \<or> m = 6 \<or> m = 9 \<or> m = 11 then 30 else 31)"

definition valid_date :: "date \<Rightarrow> bool" where
  "valid_date d =
     (1 \<le> month_of d \<and> month_of d \<le> 12 \<and>
      1 \<le> day_of d \<and> day_of d \<le> days_in_month (year_of d) (month_of d))"

text \<open>The first and the last day that a datetime64[ns] timestamp can hold at midnight.\<close>

definition ts_min :: date where
  "ts_min = (1677, 9, 22)"

definition ts_max :: date where
  "ts_max = (2262, 4, 11)"

definition to_datetime_ok :: "date \<Rightarrow> bool" where
  "to_datetime_ok d = (valid_date d \<and> ts_min \<le> d \<and> d \<le> ts_max)"

datatype dtype = Datetime64 | Object

text \<open>
  A frame is the rows of the file, the dtype pandas gave the Order Date column, and the
  derived columns the Trends page has assigned so far.
\<close>

record frame =
  records :: "txn list"
  order_date_dtype :: dtype
  order_month_col :: "date list option"
  year_col :: "int list option"

text \<open>
  Lines 137-142: \<open>pd.read_csv(..., parse_dates=['Order Date'])\<close>. The column becomes
  datetime64[ns] when the file has at least one row and every cell is a date that type
  can hold; otherwise pandas leaves it an object column (a header-only file, a cell that
  is no date, a date out of range).
\<close>

definition load_data :: "txn list \<Rightarrow> frame" where
  "load_data csv =
     \<lparr> records = csv,
       order_date_dtype =
         (if csv \<noteq> [] \<and> list_all (\<lambda>r. to_datetime_ok (order_date r)) csv
          then Datetime64 else Object),
       order_month_col = None,
       year_col = None \<rparr>"

definition columns :: "frame \<Rightarrow> string list" where
  "columns f =
     [''Order ID'', ''Order Date'', ''Category'', ''Sub-Category'', ''Region'', ''Segment'',
      ''Sales'', ''Profit'', ''Discount'', ''Quantity'']
     @ (case order_month_col f of None \<Rightarrow> [] | Some c \<Rightarrow> [''Order Month''])
     @ (case year_col f of None \<Rightarrow> [] | Some c \<Rightarrow> [''Year''])"

text \<open>\<open>df['Order Date'].dt\<close>: only a datetime column has the accessor.\<close>

definition dt :: "frame \<Rightarrow> py_error + date list" where
  "dt f =
     (if order_date_dtype f = Datetime64 then Inr (map order_date (records f))
      else Inl AttributeError)"

section \<open>Statements of the script\<close>

text \<open>
  The pages work on the module-level variable \<open>df\<close>. A statement takes the frame
  \<open>df\<close> holds and gives the frame it holds afterwards, with the value computed or the
  exception raised. An exception ends the branch: the rest runs only on a value.
\<close>

type_synonym 'a stmt = "frame \<Rightarrow> frame \<times> (py_error + 'a)"

definition and_then :: "'e + 'a \<Rightarrow> ('a \<Rightarrow> 'e + 'b) \<Rightarrow> 'e + 'b" where
  "and_then r k = (case r of Inl e \<Rightarrow> Inl e | Inr v \<Rightarrow> k v)"

text \<open>An expression over \<open>df\<close>: it reads the frame and leaves it as it is.\<close>

definition expr :: "(frame \<Rightarrow> py_error + 'a) \<Rightarrow> 'a stmt" where
  "expr e df = (df, e df)"

text \<open>\<open>df[name] = values\<close> for the two derived columns.\<close>

definition set_order_month :: "date list \<Rightarrow> unit stmt" where
  "set_order_month c df = (df\<lparr> order_month_col := Some c \<rparr>, Inr ())"

definition set_year :: "int list \<Rightarrow> unit stmt" where
  "set_year c df = (df\<lparr> year_col := Some c \<rparr>, Inr ())"

definition ret :: "'a \<Rightarrow> 'a stmt" where
  "ret v df = (df, Inr v)"

definition seq :: "'a stmt \<Rightarrow> ('a \<Rightarrow> 'b stmt) \<Rightarrow> 'b stmt" where
  "seq s k df = (case s df of (df1, Inl e) \<Rightarrow> (df1, Inl e) | (df1, Inr v) \<Rightarrow> k v df1)"

section \<open>Overview page (lines 148-185)\<close>

text \<open>
  Line 165: \<open>df.groupby(pd.Grouper(key='Order Date', freq='M'))['Sales'].sum()\<close> groups
  by month-end bins and needs a datetime column (TypeError otherwise). pandas numbers
  calendar months consecutively (the period ordinal), lays the bin edges from the
  month end before the earliest order date to the month end after the latest one (both
  must be timestamps that datetime64[ns] can hold), makes one bin for every month in
  between, labels each bin with the last day of its month, and sums the Sales that fall
  into it; a bin without rows sums to 0.
\<close>

definition period_ordinal :: "date \<Rightarrow> int" where
  "period_ordinal d = year_of d * 12 + (int (month_of d) - 1)"

definition month_end :: "int \<Rightarrow> date" where
  "month_end n = (let y = n div 12; m = nat (n mod 12) + 1 in (y, m, days_in_month y m))"

definition monthly_sales :: "frame \<Rightarrow> py_error + (date \<times> float64) list" where
  "monthly_sales f =
     (if order_date_dtype f \<noteq> Datetime64 then Inl TypeError
      else if records f = [] then Inr []
      else let os = map (\<lambda>r. period_ordinal (order_date r)) (records f);
               lo = Min (set os); hi = Max (set os) in
        if month_end (lo - 1) < ts_min \<or> ts_max < month_end hi then Inl OutOfBoundsDatetime
        else Inr (map (\<lambda>n. (month_end n,
                    series_sum (map sales
                      (filter (\<lambda>r. period_ordinal (order_date r) = n) (records f)))))
                  [lo .. hi]))"

definition overview_page :: "(kpis \<times> (date \<times> float64) list) stmt" where
  "overview_page =
     seq (expr (\<lambda>df. Inr (overview_kpis (records df)))) (\<lambda>k.
     seq (expr monthly_sales) (\<lambda>ms.
     ret (k, ms)))"

section \<open>Trends page (lines 190-255)\<close>

text \<open>
  \<open>.dt.to_period('M').dt.to_timestamp()\<close>: the first day of the date's month, which
  must again be a timestamp that datetime64[ns] can hold.
\<close>

definition to_month_start :: "date \<Rightarrow> date" where
  "to_month_start d = (year_of d, month_of d, 1)"

definition order_month_values :: "frame \<Rightarrow> py_error + date list" where
  "order_month_values f =
     and_then (dt f) (\<lambda>ds.
       if list_all (\<lambda>d. ts_min \<le> to_month_start d) ds then Inr (map to_month_start ds)
       else Inl OutOfBoundsDatetime)"

text \<open>Line 195: \<open>df['Order Month'] = ...\<close>\<close>

definition assign_order_month :: "unit stmt" where
  "assign_order_month = seq (expr order_month_values) set_order_month"

text \<open>Line 197: \<open>df['Year'] = df['Order Date'].dt.year\<close>\<close>

definition year_values :: "frame \<Rightarrow> py_error + int list" where
  "year_values f = and_then (dt f) (\<lambda>ds. Inr (map year_of ds))"

definition assign_year :: "unit stmt" where
  "assign_year = seq (expr year_values) set_year"

text \<open>\<open>[['Sales', 'Profit', 'Discount']].sum().reset_index()\<close> over groups of (key, row) pairs.\<close>

definition sum_sales_profit_discount ::
  "('k \<times> ('k \<times> txn) list) list \<Rightarrow> ('k \<times> float64 \<times> float64 \<times> float64) list" where
  "sum_sales_profit_discount gs =
     map (\<lambda>(k, g). (k, series_sum (map (\<lambda>p. sales (snd p)) g),
                       series_sum (map (\<lambda>p. profit (snd p)) g),
                       series_sum (map (\<lambda>p. discount (snd p)) g))) gs"

text \<open>Lines 196 and 228: \<open>groupby('Order Month')[[...]].sum().reset_index()\<close>\<close>

definition monthly :: "frame \<Rightarrow> py_error + (date \<times> float64 \<times> float64 \<times> float64) list" where
  "monthly f =
     (case order_month_col f of
        None \<Rightarrow> Inl (KeyError ''Order Month'')
      | Some ms \<Rightarrow> Inr (sum_sales_profit_discount (groupby fst (zip ms (records f)))))"

text \<open>Line 221: \<open>sorted(df['Year'].unique())\<close>\<close>

definition unique_years :: "frame \<Rightarrow> py_error + int list" where
  "unique_years f =
     (case year_col f of None \<Rightarrow> Inl (KeyError ''Year'') | Some ys \<Rightarrow> Inr (sort (remdups ys)))"

text \<open>Line 225: \<open>filtered_df = df[df['Year'] == selected_year]\<close>\<close>

definition filter_by_year :: "frame \<Rightarrow> int \<Rightarrow> py_error + frame" where
  "filter_by_year f selected_year =
     (case year_col f of
        None \<Rightarrow> Inl (KeyError ''Year'')
      | Some ys \<Rightarrow>
          let flags = map (\<lambda>y. y = selected_year) ys in
          Inr \<lparr> records = boolean_index flags (records f),
                order_date_dtype = order_date_dtype f,
                order_month_col = map_option (boolean_index flags) (order_month_col f),
                year_col = Some (boolean_index flags ys) \<rparr>)"

text \<open>Lines 197 and 225 on their own: the year filter, without the rest of the branch.\<close>

definition year_filter :: "int \<Rightarrow> frame stmt" where
  "year_filter selected_year =
     seq assign_year (\<lambda>u. expr (\<lambda>df. filter_by_year df selected_year))"

record trends_out =
  t_monthly :: "(date \<times> float64 \<times> float64 \<times> float64) list"
  t_unique_years :: "int list"
  t_filtered_df :: frame
  t_monthly_filtered :: "(date \<times> float64 \<times> float64 \<times> float64) list"

text \<open>The Trends branch, statement by statement.\<close>

definition trends_page :: "int \<Rightarrow> trends_out stmt" where
  "trends_page selected_year =
     seq assign_order_month (\<lambda>u1.
     seq (expr monthly) (\<lambda>m.
     seq assign_year (\<lambda>u2.
     seq (expr unique_years) (\<lambda>us.
     seq (expr (\<lambda>df. filter_by_year df selected_year)) (\<lambda>fd.
     seq (expr (\<lambda>df. monthly fd)) (\<lambda>mf.
     ret \<lparr> t_monthly = m, t_unique_years = us,
           t_filtered_df = fd, t_monthly_filtered = mf \<rparr>))))))"

section \<open>Category, Region and Segment pages (lines 260-392)\<close>

definition category_page ::
  "((string \<times> float64 \<times> float64) list \<times> ((string \<times> string) \<times> float64 \<times> float64) list) stmt" where
  "category_page =
     seq (expr (\<lambda>df. Inr (cat_summary (records df)))) (\<lambda>c.
     seq (expr (\<lambda>df. Inr (subcat_table (records df)))) (\<lambda>t.
     ret (c, t)))"

definition region_page ::
  "((string \<times> float64 \<times> float64) list \<times> (string \<times> float64 \<times> float64) list) stmt" where
  "region_page =
     seq (expr (\<lambda>df. Inr (region_summary (records df)))) (\<lambda>c.
     seq (expr (\<lambda>df. Inr (region_table (records df)))) (\<lambda>t.
     ret (c, t)))"

definition segment_page ::
  "((string \<times> float64 \<times> float64) list \<times> (string \<times> float64 \<times> float64) list) stmt" where
  "segment_page =
     seq (expr (\<lambda>df. Inr (segment_summary (records df)))) (\<lambda>c.
     seq (expr (\<lambda>df. Inr (segment_table (records df)))) (\<lambda>t.
     ret (c, t)))"

section \<open>One run of the script\<close>

text \<open>
  The branches that mention \<open>df\<close>; the Forecasting, Clustering, Report and Introduction
  branches never do.
\<close>

datatype page = Overview | Trends | Category | Region | Segment

datatype page_out =
  Overview_out kpis "(date \<times> float64) list"
  | Trends_out trends_out
  | Summary_out "(string \<times> float64 \<times> float64) list" "(string \<times> float64 \<times> float64) list"
  | Category_out "(string \<times> float64 \<times> float64) list"
      "((string \<times> string) \<times> float64 \<times> float64) list"

definition run_page :: "page \<Rightarrow> int \<Rightarrow> page_out stmt" where
  "run_page p selected_year =
     (case p of
        Overview \<Rightarrow> seq overview_page (\<lambda>(k, ms). ret (Overview_out k ms))
      | Trends \<Rightarrow> seq (trends_page selected_year) (\<lambda>out. ret (Trends_out out))
      | Category \<Rightarrow> seq category_page (\<lambda>(c, t). ret (Category_out c t))
      | Region \<Rightarrow> seq region_page (\<lambda>(c, t). ret (Summary_out c t))
      | Segment \<Rightarrow> seq segment_page (\<lambda>(c, t). ret (Summary_out c t)))"

section \<open>Forecasting page (lines 403-445)\<close>

text \<open>Python's \<open>xs[start:]\<close>: a negative start counts from the end, and both are clamped.\<close>

definition slice_from :: "int \<Rightarrow> 'a list \<Rightarrow> 'a list" where
  "slice_from start xs =
     (let n = int (length xs);
          s = (if start < 0 then max (n + start) 0 else min start n)
      in drop (nat s) xs)"

text \<open>\<open>DataFrame.tail(n)\<close>: \<open>iloc[0:0]\<close> for n = 0, \<open>iloc[-n:]\<close> otherwise.\<close>

definition tail :: "int \<Rightarrow> 'a list \<Rightarrow> 'a list" where
  "tail n xs = (if n = 0 then [] else slice_from (- n) xs)"

record forecast_table_row =
  Date :: string
  Forecast :: rat
  Lower_Bound :: rat
  Upper_Bound :: rat

text \<open>\<open>[['ds', 'yhat', 'yhat_lower', 'yhat_upper']]\<close> followed by \<open>rename(columns=...)\<close>.\<close>

definition rename_columns :: "forecast_row \<Rightarrow> forecast_table_row" where
  "rename_columns r =
     \<lparr> Date = ds r, Forecast = yhat r, Lower_Bound = yhat_lower r, Upper_Bound = yhat_upper r \<rparr>"

record forecasting_out =
  diagnostics :: "string list"
  forecast_data :: "forecast_row list"
  forecast_table :: "forecast_table_row list"

text \<open>
  The Forecasting branch. \<open>forecast_data\<close> is the table \<open>pd.read_csv\<close> read; the
  branch calls nothing that warns or logs, so the diagnostics it emits are none.
\<close>

definition forecasting_page :: "forecast_row list \<Rightarrow> forecasting_out" where
  "forecasting_page csv =
     \<lparr> diagnostics = [],
       forecast_data = csv,
       forecast_table = map rename_columns (tail 5 csv) \<rparr>"

section \<open>Clustering page (lines 470-485)\<close>

text \<open>
  \<open>'mean'\<close> of a group: the missing cells are left out, the rest is summed as a
  float64 column and divided by their number; a group with no cell left has mean NaN.
\<close>

definition series_mean :: "float64 list \<Rightarrow> float64" where
  "series_mean xs =
     (let vs = filter (\<lambda>v. \<not> isnan v) xs in
      if vs = [] then NaN else fdiv_const (series_sum vs) (of_nat (length vs)))"

text \<open>\<open>.round(2)\<close> as numpy computes it on doubles: \<open>rint(x * 100) / 100\<close>.\<close>

definition np_round2 :: "float64 \<Rightarrow> float64" where
  "np_round2 x = fdiv_const (rint (fmul_const x 100)) 100"

text \<open>The dict literal of lines 478-483; the pictographs and dashes are their UTF-8 bytes.\<close>

definition cluster_labels :: "(int \<times> string) list" where
  "cluster_labels =
     [(0, [CHR 0xF0, CHR 0x9F, CHR 0xA7, CHR 0xBE] @ '' Regular Customers''),
      (1, [CHR 0xF0, CHR 0x9F, CHR 0x8F, CHR 0x86] @ '' VIPs '' @ [CHR 0xE2, CHR 0x80, CHR 0x94]
            @ '' High Value Clients''),
      (2, [CHR 0xF0, CHR 0x9F, CHR 0x8E, CHR 0xAF] @ '' Medium Segment ''
            @ [CHR 0xE2, CHR 0x80, CHR 0x94] @ '' Stable''),
      (3, [CHR 0xE2, CHR 0x9A, CHR 0xA0, CHR 0xEF, CHR 0xB8, CHR 0x8F] @ '' Risky ''
            @ [CHR 0xE2, CHR 0x80, CHR 0x94] @ '' Discount Loss Group'')]"

record summary_row =
  Cluster :: int
  Sales :: float64
  Profit :: float64
  Discount :: float64
  Quantity :: float64
  Interpretation :: "string option"

text \<open>
  \<open>groupby('Cluster').agg({...: 'mean'}).round(2).reset_index()\<close>, then
  \<open>summary_df["Cluster"].map(cluster_labels)\<close>: \<open>Series.map\<close> with a dict gives a
  missing value (None here) for a key the dict does not have. The int64 Quantity column
  is converted to float64 for its mean.
\<close>

definition summary_df :: "cluster_point list \<Rightarrow> summary_row list" where
  "summary_df cluster_df =
     map (\<lambda>(k, g).
            \<lparr> Cluster = k,
              Sales = np_round2 (series_mean (map sales g)),
              Profit = np_round2 (series_mean (map profit g)),
              Discount = np_round2 (series_mean (map discount g)),
              Quantity = np_round2 (series_mean (map (\<lambda>r. to_float64 (quantity r)) g)),
              Interpretation = map_of cluster_labels k \<rparr>)
         (groupby cluster cluster_df)"

section \<open>Notions the specification names and the code does not compute\<close>

text \<open>First-seen order of the group keys: each distinct key where it first occurs.\<close>

definition spec_first_seen_order :: "'k list \<Rightarrow> 'k list" where
  "spec_first_seen_order ks = rev (remdups (rev ks))"

text \<open>The two forecast invariants the specification has \<open>load_forecast\<close> validate.\<close>

definition spec_interval_ordered :: "forecast_row \<Rightarrow> bool" where
  "spec_interval_ordered r = (yhat_lower r \<le> yhat r \<and> yhat r \<le> yhat_upper r)"

definition spec_dates_monotonic :: "forecast_row list \<Rightarrow> bool" where
  "spec_dates_monotonic rows = sorted (map ds rows)"

definition spec_forecast_valid :: "forecast_row list \<Rightarrow> bool" where
  "spec_forecast_valid rows = (list_all spec_interval_ordered rows \<and> spec_dates_monotonic rows)"

section \<open>When float64 sums are exact\<close>

text \<open>
  The cells of a column add up without rounding, in whatever order they are added, when
  all of them are finite and the exact sum of every selection of them is a double.
\<close>

definition exactly_summable :: "float64 list \<Rightarrow> bool" where
  "exactly_summable xs =
     (list_all is_finite xs \<and> list_all representable (map sum_list (subseqs (map value_of xs))))"

text \<open>A file whose Order Date column the Trends page can work on.\<close>

definition plain_dates :: "txn list \<Rightarrow> bool" where
  "plain_dates csv =
     (csv \<noteq> [] \<and>
      list_all (\<lambda>r. to_datetime_ok (order_date r) \<and> ts_min \<le> to_month_start (order_date r)) csv)"

section \<open>Example inputs\<close>

text \<open>A decimal cell of a file is read as the nearest double.\<close>

definition mk_txn :: "string \<Rightarrow> date \<Rightarrow> string \<Rightarrow> string \<Rightarrow> rat \<Rightarrow> txn" where
  "mk_txn oid d cat sub s =
     \<lparr> sales = round_double s, profit = Fin 0, discount = Fin 0, quantity = 1,
       order_id = oid, order_date = d, category = cat, sub_category = sub,
       region = ''West'', segment = ''Consumer'' \<rparr>"

definition example_rows :: "txn list" where
  "example_rows =
     [mk_txn ''A'' (2024, 1, 5) ''Technology'' ''Phones'' 100,
      mk_txn ''A'' (2024, 1, 20) ''Furniture'' ''Chairs'' 50,
      mk_txn ''B'' (2024, 3, 1) ''Furniture'' ''Tables'' 30]"

text \<open>Sales 0.1, 0.2 and 0.3.\<close>

definition rounding_rows :: "txn list" where
  "rounding_rows =
     [mk_txn ''A'' (2024, 1, 5) ''Technology'' ''Phones'' (1 / 10),
      mk_txn ''B'' (2024, 1, 20) ''Furniture'' ''Chairs'' (2 / 10),
      mk_txn ''C'' (2024, 3, 1) ''Furniture'' ''Tables'' (3 / 10)]"


definition example_forecast :: "forecast_row list" where
  "example_forecast =
     [\<lparr> ds = ''2018-02-28'', yhat = 10, yhat_lower = 12, yhat_upper = 15 \<rparr>,
      \<lparr> ds = ''2018-01-31'', yhat = 20, yhat_lower = 18, yhat_upper = 25 \<rparr>]"

definition mk_point :: "int \<Rightarrow> rat \<Rightarrow> cluster_point" where
  "mk_point c s =
     \<lparr> sales = round_double s, profit = round_double (s / 4), discount = Fin 0, quantity = 2,
       cluster = c \<rparr>"

definition example_clusters :: "cluster_point list" where
  "example_clusters = [mk_point 4 10, mk_point 0 1, mk_point 4 (41 / 4), mk_point 0 2]"


section \<open>The rounding of doubles\<close>

text \<open>
  Checks of the rounding model: the rounded integer is a nearest one, and the exponent is
  the binary exponent.
\<close>

lemma round_half_even_close: "\<bar>of_int (round_half_even y) - y\<bar> \<le> 1 / 2"
proof -
  define f where "f = \<lfloor>y\<rfloor>"
  define d where "d = y - of_int f"
  have d: "0 \<le> d" "d < 1" unfolding d_def f_def by linarith+
  have r: "round_half_even y =
      (if d < 1 / 2 then f else if 1 / 2 < d then f + 1 else if even f then f else f + 1)"
    by (simp add: round_half_even_def Let_def f_def d_def)
  have "\<bar>of_int (round_half_even y) - (of_int f + d)\<bar> \<le> 1 / 2"
    unfolding r using d by (auto simp: abs_if)
  then show ?thesis
    by (simp add: d_def)
qed

lemma pow2_nat: "0 \<le> e \<Longrightarrow> pow2 e = 2 ^ nat e"
  by (simp add: pow2_def)

lemma pow2_neg: "0 \<le> b \<Longrightarrow> pow2 (- b) = 1 / 2 ^ nat b"
  by (cases "b = 0") (simp_all add: pow2_def)

lemma ilog2_bounds:
  assumes "x \<noteq> 0"
  shows "pow2 (ilog2 x) \<le> \<bar>x\<bar> \<and> \<bar>x\<bar> < pow2 (ilog2 x + 1)"
proof (cases "1 \<le> \<bar>x\<bar>")
  case True
  define n where "n = \<lfloor>\<bar>x\<bar>\<rfloor>"
  have n1: "1 \<le> n" using True unfolding n_def by linarith
  then have n0: "0 < n" by simp
  have b1: "1 \<le> bitlen n"
    using n0 bitlen_eq_zero_iff[of n] bitlen_nonneg[of n] by linarith
  from bitlen_bounds[OF n0] have lo: "2 ^ nat (bitlen n - 1) \<le> n" and hi: "n < 2 ^ nat (bitlen n)"
    by auto
  have e: "ilog2 x = bitlen n - 1"
    using True by (simp add: ilog2_def n_def)
  have "(2::rat) ^ nat (bitlen n - 1) = of_int (2 ^ nat (bitlen n - 1))" by simp
  also have "\<dots> \<le> of_int n" using lo by (simp only: of_int_le_iff)
  also have "\<dots> \<le> \<bar>x\<bar>" unfolding n_def by linarith
  finally have A: "pow2 (ilog2 x) \<le> \<bar>x\<bar>"
    unfolding e using b1 by (simp add: pow2_nat)
  have "n + 1 \<le> 2 ^ nat (bitlen n)" using hi by simp
  then have "(of_int (n + 1) :: rat) \<le> of_int (2 ^ nat (bitlen n))"
    by (simp only: of_int_le_iff)
  moreover have "\<bar>x\<bar> < of_int (n + 1)" unfolding n_def by linarith
  ultimately have "\<bar>x\<bar> < 2 ^ nat (bitlen n)" by simp
  then have B: "\<bar>x\<bar> < pow2 (ilog2 x + 1)"
    unfolding e using b1 by (simp add: pow2_nat)
  from A B show ?thesis by simp
next
  case False
  define a where "a = \<bar>x\<bar>"
  have a: "0 < a" "a < 1" using assms False by (simp_all add: a_def)
  define n where "n = \<lceil>1 / a\<rceil> - 1"
  have y1: "1 < 1 / a" using a by simp
  have n1: "1 \<le> n" using y1 unfolding n_def by linarith
  then have n0: "0 < n" by simp
  have ny: "of_int n < 1 / a" "1 / a \<le> of_int n + 1"
    unfolding n_def by linarith+
  have b1: "1 \<le> bitlen n"
    using n0 bitlen_eq_zero_iff[of n] bitlen_nonneg[of n] by linarith
  from bitlen_bounds[OF n0] have lo: "2 ^ nat (bitlen n - 1) \<le> n" and hi: "n < 2 ^ nat (bitlen n)"
    by auto
  have e: "ilog2 x = - bitlen n"
    using False by (simp add: ilog2_def n_def a_def)
  have "n + 1 \<le> 2 ^ nat (bitlen n)" using hi by simp
  then have "(of_int (n + 1) :: rat) \<le> of_int (2 ^ nat (bitlen n))"
    by (simp only: of_int_le_iff)
  then have "1 / a \<le> 2 ^ nat (bitlen n)" using ny(2) by simp
  then have "1 / 2 ^ nat (bitlen n) \<le> a"
    using a(1) by (simp add: field_simps)
  then have A: "pow2 (ilog2 x) \<le> \<bar>x\<bar>"
    unfolding e a_def[symmetric] using b1 by (simp add: pow2_neg)
  have "(2::rat) ^ nat (bitlen n - 1) = of_int (2 ^ nat (bitlen n - 1))" by simp
  also have "\<dots> \<le> of_int n" using lo by (simp only: of_int_le_iff)
  also have "\<dots> < 1 / a" by (rule ny(1))
  finally have "a < 1 / 2 ^ nat (bitlen n - 1)"
    using a(1) by (simp add: field_simps)
  moreover have "pow2 (- bitlen n + 1) = 1 / 2 ^ nat (bitlen n - 1)"
    using pow2_neg[of "bitlen n - 1"] b1 by simp
  ultimately have B: "\<bar>x\<bar> < pow2 (ilog2 x + 1)"
    unfolding e a_def[symmetric] by simp
  from A B show ?thesis by simp
qed

lemma pow2_pos: "0 < pow2 e"
  by (simp add: pow2_def)

text \<open>A finite result of rounding is within half a unit in the last place of the exact value.\<close>

lemma round_double_close:
  assumes "round_double x = Fin y"
  shows "\<bar>y - x\<bar> \<le> pow2 (max (ilog2 x) (- 1022) - 52) / 2"
proof (cases "x = 0")
  case True
  with assms show ?thesis
    using pow2_pos[of "max (ilog2 x) (- 1022) - 52"] by (simp add: round_double_def)
next
  case False
  define u where "u = pow2 (max (ilog2 x) (- 1022) - 52)"
  have u: "0 < u" by (simp add: u_def pow2_pos)
  have y: "y = of_int (round_half_even (x / u)) * u"
    using assms False by (auto simp: round_double_def Let_def u_def split: if_splits)
  have "y - x = (of_int (round_half_even (x / u)) - x / u) * u"
    using u by (simp add: y field_simps)
  then have "\<bar>y - x\<bar> = \<bar>of_int (round_half_even (x / u)) - x / u\<bar> * u"
    using u by (simp only: abs_mult abs_of_pos)
  also have "\<dots> \<le> (1 / 2) * u"
    using round_half_even_close[of "x / u"] u by (intro mult_right_mono) simp_all
  finally show ?thesis
    by (simp add: u_def)
qed

section \<open>Helper lemmas\<close>


lemma sum_list_delta:
  fixes v :: "'a::comm_monoid_add"
  assumes "distinct ks"
  shows "sum_list (map (\<lambda>k. if a = k then v else 0) ks) = (if a \<in> set ks then v else 0)"
proof -
  have "sum_list (map (\<lambda>k. if a = k then v else 0) ks) = (\<Sum>k\<in>set ks. if a = k then v else 0)"
    using assms by (simp add: sum_list_distinct_conv_sum_set)
  also have "\<dots> = (if a \<in> set ks then v else 0)"
    by (simp add: sum.delta')
  finally show ?thesis .
qed

text \<open>Summing group by group is summing the rows whose key is among the groups' keys.\<close>

lemma sum_over_groups:
  fixes f :: "'r \<Rightarrow> 'a::comm_monoid_add"
  assumes "distinct ks"
  shows "sum_list (map (\<lambda>k. sum_list (map f (filter (\<lambda>r. key r = k) rows))) ks)
       = sum_list (map f (filter (\<lambda>r. key r \<in> set ks) rows))"
proof (induction rows)
  case Nil
  show ?case by simp
next
  case (Cons r rs)
  have split: "(\<lambda>k. sum_list (map f (filter (\<lambda>x. key x = k) (r # rs))))
      = (\<lambda>k. (if key r = k then f r else 0) + sum_list (map f (filter (\<lambda>x. key x = k) rs)))"
    by (rule ext) simp
  show ?case
    unfolding split using Cons.IH
    by (simp add: sum_list_addf sum_list_delta[OF assms])
qed

lemma group_keys_distinct: "distinct (group_keys ks)"
  by (simp add: group_keys_def)

lemma group_keys_set: "set (group_keys ks) = set ks"
  by (simp add: group_keys_def)

lemma group_keys_sorted: "sorted (group_keys ks)"
  by (simp add: group_keys_def)

lemma group_keys_strict: "sorted_wrt (<) (group_keys ks)"
  by (simp add: strict_sorted_iff group_keys_sorted group_keys_distinct)

lemma group_keys_cong: "set ks = set ks' \<Longrightarrow> group_keys ks = group_keys ks'"
  by (rule sorted_distinct_set_unique) (simp_all add: group_keys_sorted group_keys_distinct group_keys_set)

lemma groupby_keys: "map fst (groupby key rows) = group_keys (map key rows)"
  by (simp add: groupby_def comp_def)

lemma sum_sales_profit_keys: "map fst (sum_sales_profit gs) = map fst gs"
  by (simp add: sum_sales_profit_def comp_def case_prod_beta)

section \<open>Sums that do not round\<close>

lemma foldl_fadd_exact:
  assumes "\<And>n. n \<le> length ws \<Longrightarrow> representable (a + sum_list (take n ws))"
  shows "foldl fadd (Fin a) (map Fin ws) = Fin (a + sum_list ws)"
  using assms
proof (induction ws arbitrary: a)
  case Nil
  show ?case by simp
next
  case (Cons w ws)
  have "representable (a + sum_list (take (Suc 0) (w # ws)))"
    by (rule Cons.prems) simp
  then have step: "round_double (a + w) = Fin (a + w)"
    by (simp add: representable_def)
  have "foldl fadd (Fin (a + w)) (map Fin ws) = Fin (a + w + sum_list ws)"
  proof (rule Cons.IH)
    fix n assume "n \<le> length ws"
    then have "representable (a + sum_list (take (Suc n) (w # ws)))"
      by (intro Cons.prems) simp
    then show "representable (a + w + sum_list (take n ws))"
      by (simp add: add.assoc)
  qed
  then show ?case
    by (simp add: step add.assoc)
qed

lemma finite_cells: "list_all is_finite xs \<Longrightarrow> map Fin (map value_of xs) = xs"
  by (induction xs) (auto simp: is_finite_def value_of_def split: float64.splits)

lemma finite_not_nan: "list_all is_finite xs \<Longrightarrow> filter (\<lambda>v. \<not> isnan v) xs = xs"
  by (induction xs) (auto simp: is_finite_def isnan_def split: float64.splits)

lemma exactly_summable_subseq:
  assumes "exactly_summable xs" "subseq ys xs"
  shows "exactly_summable ys"
proof -
  have "set ys \<subseteq> set xs"
    using assms(2) by (auto elim: list_emb_set)
  then have fin: "list_all is_finite ys"
    using assms(1) by (auto simp: exactly_summable_def list_all_iff)
  have "subseq (map value_of ys) (map value_of xs)"
    using assms(2) by (rule subseq_map)
  then have "set (subseqs (map value_of ys)) \<subseteq> set (subseqs (map value_of xs))"
    by (auto intro: subseq_order.trans)
  then have "list_all representable (map sum_list (subseqs (map value_of ys)))"
    using assms(1) by (auto simp: exactly_summable_def list_all_iff)
  with fin show ?thesis
    by (simp add: exactly_summable_def)
qed

lemma exactly_summable_sum:
  assumes "exactly_summable xs"
  shows "representable (sum_list (map value_of xs))"
proof -
  have "map value_of xs \<in> set (subseqs (map value_of xs))" by simp
  with assms show ?thesis
    by (auto simp: exactly_summable_def list_all_iff)
qed

lemma series_sum_exact:
  assumes "exactly_summable xs"
  shows "series_sum xs = Fin (sum_list (map value_of xs))"
proof -
  have fin: "list_all is_finite xs"
    using assms by (simp add: exactly_summable_def)
  have "foldl fadd (Fin 0) (map Fin (map value_of xs)) = Fin (0 + sum_list (map value_of xs))"
  proof (rule foldl_fadd_exact)
    fix n assume "n \<le> length (map value_of xs)"
    have "subseq (take n xs) xs"
      by (simp add: prefix_imp_subseq take_is_prefix)
    then have "exactly_summable (take n xs)"
      using assms exactly_summable_subseq by blast
    then show "representable (0 + sum_list (take n (map value_of xs)))"
      using exactly_summable_sum by (simp add: take_map)
  qed
  then have "foldl fadd (Fin 0) xs = Fin (sum_list (map value_of xs))"
    unfolding finite_cells[OF fin] by simp
  then show ?thesis
    by (simp add: series_sum_def finite_not_nan[OF fin])
qed

section \<open>The int64 sum\<close>






section \<open>C1 and C2: the KPI bundle and the conservation of aggregation\<close>

lemma value_of_Fin: "value_of (Fin x) = x"
  by (simp add: value_of_def)

lemma group_sum_exact:
  assumes "exactly_summable (map sales df)"
  shows "series_sum (map sales (filter p df)) = Fin (sum_list (map (\<lambda>r. value_of (sales r)) (filter p df)))"
proof -
  have "subseq (map sales (filter p df)) (map sales df)"
    by (intro subseq_map subseq_filter_left)
  then have "exactly_summable (map sales (filter p df))"
    using assms exactly_summable_subseq by blast
  then show ?thesis
    by (simp add: series_sum_exact comp_def)
qed

lemma summary_sales_exact:
  assumes "exactly_summable (map sales df)"
  shows "map (\<lambda>r. fst (snd r)) (sum_sales_profit (groupby key df))
       = map Fin (map (\<lambda>k. sum_list (map (\<lambda>r. value_of (sales r)) (filter (\<lambda>r. key r = k) df)))
                   (group_keys (map key df)))"
  by (simp add: sum_sales_profit_def groupby_def comp_def group_sum_exact[OF assms])

lemma group_sums_add_up:
  "sum_list (map (\<lambda>k. sum_list (map f (filter (\<lambda>r. key r = k) df))) (group_keys (map key df)))
     = sum_list (map (f :: 'r \<Rightarrow> rat) df)"
proof -
  have "filter (\<lambda>r. key r \<in> set (group_keys (map key df))) df = df"
    by (simp add: group_keys_set)
  then show ?thesis
    using sum_over_groups[OF group_keys_distinct, where f = f and key = key and rows = df
        and ks1 = "map key df"] by simp
qed

lemma summary_sales_total:
  assumes "exactly_summable (map sales df)"
  shows "series_sum (map (\<lambda>r. fst (snd r)) (sum_sales_profit (groupby key df)))
           = Fin (sum_list (map (\<lambda>r. value_of (sales r)) df))"
    and "sum_list (map (\<lambda>r. value_of (fst (snd r))) (sum_sales_profit (groupby key df)))
           = sum_list (map (\<lambda>r. value_of (sales r)) df)"
proof -
  let ?v = "\<lambda>r. value_of (sales r)"
  let ?S = "\<lambda>k. sum_list (map ?v (filter (\<lambda>r. key r = k) df))"
  let ?ks = "group_keys (map key df)"
  have "foldl fadd (Fin 0) (map Fin (map ?S ?ks)) = Fin (0 + sum_list (map ?S ?ks))"
  proof (rule foldl_fadd_exact)
    fix n assume "n \<le> length (map ?S ?ks)"
    have d: "distinct (take n ?ks)"
      by (simp add: group_keys_distinct)
    have "sum_list (take n (map ?S ?ks)) = sum_list (map ?S (take n ?ks))"
      by (simp add: take_map)
    also have "\<dots> = sum_list (map ?v (filter (\<lambda>r. key r \<in> set (take n ?ks)) df))"
      by (rule sum_over_groups[OF d])
    finally have eq: "sum_list (take n (map ?S ?ks))
        = sum_list (map ?v (filter (\<lambda>r. key r \<in> set (take n ?ks)) df))" .
    have "subseq (map sales (filter (\<lambda>r. key r \<in> set (take n ?ks)) df)) (map sales df)"
      by (intro subseq_map subseq_filter_left)
    then have "exactly_summable (map sales (filter (\<lambda>r. key r \<in> set (take n ?ks)) df))"
      using assms exactly_summable_subseq by blast
    then have "representable (sum_list (map ?v (filter (\<lambda>r. key r \<in> set (take n ?ks)) df)))"
      using exactly_summable_sum by (fastforce simp: comp_def)
    then show "representable (0 + sum_list (take n (map ?S ?ks)))"
      unfolding eq by simp
  qed
  moreover have "filter (\<lambda>v. \<not> isnan v) (map Fin (map ?S ?ks)) = map Fin (map ?S ?ks)"
    by (simp add: isnan_def filter_id_conv)
  ultimately show "series_sum (map (\<lambda>r. fst (snd r)) (sum_sales_profit (groupby key df)))
           = Fin (sum_list (map ?v df))"
    unfolding summary_sales_exact[OF assms] series_sum_def
    by (simp add: group_sums_add_up)
  have "map (\<lambda>r. value_of (fst (snd r))) (sum_sales_profit (groupby key df))
      = map value_of (map (\<lambda>r. fst (snd r)) (sum_sales_profit (groupby key df)))"
    by (simp add: comp_def)
  also have "\<dots> = map ?S ?ks"
    unfolding summary_sales_exact[OF assms] by (simp add: comp_def value_of_Fin)
  finally show "sum_list (map (\<lambda>r. value_of (fst (snd r))) (sum_sales_profit (groupby key df)))
           = sum_list (map ?v df)"
    by (simp add: group_sums_add_up)
qed




text \<open>
  C2 as stated fails: with Sales 0.1, 0.2 and 0.3 the category sums 0.5 and 0.1 add up,
  exactly and as doubles, to less than the total 0.6000000000000001.
\<close>

theorem group_sales_rounding_counterexample:
  "map (fst \<circ> snd) (cat_summary rounding_rows)
     = [Fin (1 / 2), Fin (3602879701896397 / 36028797018963968)] \<and>
   series_sum (map (fst \<circ> snd) (cat_summary rounding_rows))
     = Fin (21617278211378380 / 36028797018963968) \<and>
   sum_list (map (value_of \<circ> fst \<circ> snd) (cat_summary rounding_rows))
     = 21617278211378381 / 36028797018963968 \<and>
   total_sales (overview_kpis rounding_rows) = Fin (21617278211378384 / 36028797018963968)"
  by code_simp

text \<open>
  C2, amended. For every record set whose Sales cells add up without rounding, and each of
  the dimensions category, region and segment, the Sales column of the group summary adds
  up, as a float64 sum and exactly, to the KPI total_sales of the same records.
\<close>

theorem group_sales_conserved_when_exact:
  "exactly_summable (map sales df) \<longrightarrow>
     series_sum (map (\<lambda>r. fst (snd r)) (cat_summary df)) = total_sales (overview_kpis df) \<and>
     series_sum (map (\<lambda>r. fst (snd r)) (region_summary df)) = total_sales (overview_kpis df) \<and>
     series_sum (map (\<lambda>r. fst (snd r)) (segment_summary df)) = total_sales (overview_kpis df) \<and>
     sum_list (map (\<lambda>r. value_of (fst (snd r))) (cat_summary df))
       = value_of (total_sales (overview_kpis df)) \<and>
     sum_list (map (\<lambda>r. value_of (fst (snd r))) (region_summary df))
       = value_of (total_sales (overview_kpis df)) \<and>
     sum_list (map (\<lambda>r. value_of (fst (snd r))) (segment_summary df))
       = value_of (total_sales (overview_kpis df))"
proof
  assume ex: "exactly_summable (map sales df)"
  have t: "total_sales (overview_kpis df) = Fin (sum_list (map (\<lambda>r. value_of (sales r)) df))"
    by (simp add: overview_kpis_def series_sum_exact[OF ex] comp_def)
  show "series_sum (map (\<lambda>r. fst (snd r)) (cat_summary df)) = total_sales (overview_kpis df) \<and>
     series_sum (map (\<lambda>r. fst (snd r)) (region_summary df)) = total_sales (overview_kpis df) \<and>
     series_sum (map (\<lambda>r. fst (snd r)) (segment_summary df)) = total_sales (overview_kpis df) \<and>
     sum_list (map (\<lambda>r. value_of (fst (snd r))) (cat_summary df))
       = value_of (total_sales (overview_kpis df)) \<and>
     sum_list (map (\<lambda>r. value_of (fst (snd r))) (region_summary df))
       = value_of (total_sales (overview_kpis df)) \<and>
     sum_list (map (\<lambda>r. value_of (fst (snd r))) (segment_summary df))
       = value_of (total_sales (overview_kpis df))"
    unfolding t cat_summary_def region_summary_def segment_summary_def
    by (simp add: summary_sales_total[OF ex] value_of_Fin)
qed

theorem group_sales_conserved_when_exact_witness:
  "exactly_summable (map sales example_rows) \<and>
   series_sum (map (\<lambda>r. fst (snd r)) (cat_summary example_rows)) = Fin 180 \<and>
   total_sales (overview_kpis example_rows) = Fin 180"
proof -
  have s: "exactly_summable (map sales example_rows)"
    by code_simp
  have t: "total_sales (overview_kpis example_rows) = Fin 180"
    by code_simp
  from group_sales_conserved_when_exact[of example_rows] s t show ?thesis
    by simp
qed

section \<open>Trends page: what the branch computes\<close>

lemma boolean_index_map: "boolean_index (map p xs) xs = filter p xs"
  by (induction xs) (simp_all add: boolean_index_def)

lemma boolean_index_map2: "boolean_index (map p xs) (map g xs) = map g (filter p xs)"
  by (induction xs) (simp_all add: boolean_index_def)

lemma dt_object: "order_date_dtype df \<noteq> Datetime64 \<Longrightarrow> dt df = Inl AttributeError"
  by (simp add: dt_def)

lemma dt_datetime: "order_date_dtype df = Datetime64 \<Longrightarrow> dt df = Inr (map order_date (records df))"
  by (simp add: dt_def)

text \<open>On an object column the first statement of the branch raises and leaves the frame alone.\<close>

lemma trends_page_object:
  assumes "order_date_dtype df \<noteq> Datetime64"
  shows "trends_page Y df = (df, Inl AttributeError)"
  by (simp add: trends_page_def assign_order_month_def seq_def expr_def order_month_values_def
      and_then_def dt_object[OF assms])

lemma trends_page_out_of_bounds:
  assumes "order_date_dtype df = Datetime64"
    and "\<not> list_all (\<lambda>r. ts_min \<le> to_month_start (order_date r)) (records df)"
  shows "trends_page Y df = (df, Inl OutOfBoundsDatetime)"
proof -
  have nb: "\<not> list_all (\<lambda>d. ts_min \<le> to_month_start d) (map order_date (records df))"
    using assms(2) by (simp add: list_all_iff)
  show ?thesis
    by (simp add: trends_page_def assign_order_month_def seq_def expr_def order_month_values_def
        and_then_def dt_datetime[OF assms(1)] nb)
qed

text \<open>On a datetime column with month starts in range the branch runs to its end.\<close>

lemma trends_page_result:
  assumes "order_date_dtype df = Datetime64"
    and "list_all (\<lambda>r. ts_min \<le> to_month_start (order_date r)) (records df)"
  shows "trends_page Y df =
     (df\<lparr> order_month_col := Some (map (\<lambda>r. to_month_start (order_date r)) (records df)),
          year_col := Some (map (\<lambda>r. year_of (order_date r)) (records df)) \<rparr>,
      Inr \<lparr> t_monthly = sum_sales_profit_discount
             (groupby fst (zip (map (\<lambda>r. to_month_start (order_date r)) (records df)) (records df))),
           t_unique_years = sort (remdups (map (\<lambda>r. year_of (order_date r)) (records df))),
           t_filtered_df =
             \<lparr> records = filter (\<lambda>r. year_of (order_date r) = Y) (records df),
               order_date_dtype = Datetime64,
               order_month_col = Some (map (\<lambda>r. to_month_start (order_date r))
                                  (filter (\<lambda>r. year_of (order_date r) = Y) (records df))),
               year_col = Some (map (\<lambda>r. year_of (order_date r))
                                  (filter (\<lambda>r. year_of (order_date r) = Y) (records df))) \<rparr>,
           t_monthly_filtered = sum_sales_profit_discount
             (groupby fst (zip (map (\<lambda>r. to_month_start (order_date r))
                                  (filter (\<lambda>r. year_of (order_date r) = Y) (records df)))
                               (filter (\<lambda>r. year_of (order_date r) = Y) (records df)))) \<rparr>)"
proof -
  let ?yr = "\<lambda>r. year_of (order_date r)"
  have m1: "boolean_index (map (\<lambda>r. ?yr r = Y) (records df)) (records df)
      = filter (\<lambda>r. ?yr r = Y) (records df)"
    by (rule boolean_index_map)
  have m2: "boolean_index (map (\<lambda>r. ?yr r = Y) (records df)) (map g (records df))
      = map g (filter (\<lambda>r. ?yr r = Y) (records df))" for g :: "txn \<Rightarrow> 'b"
    by (rule boolean_index_map2)
  have ok: "list_all (\<lambda>d. ts_min \<le> to_month_start d) (map order_date (records df))"
    using assms(2) by (simp add: list_all_iff)
  show ?thesis
    by (simp add: trends_page_def assign_order_month_def assign_year_def seq_def expr_def ret_def
        set_order_month_def set_year_def order_month_values_def year_values_def and_then_def
        dt_def ok monthly_def unique_years_def filter_by_year_def
        Let_def comp_def m1 m2 assms(1))
qed

lemma year_filter_result:
  assumes "order_date_dtype df = Datetime64"
  shows "year_filter Y df =
     (df\<lparr> year_col := Some (map (\<lambda>r. year_of (order_date r)) (records df)) \<rparr>,
      Inr \<lparr> records = filter (\<lambda>r. year_of (order_date r) = Y) (records df),
            order_date_dtype = Datetime64,
            order_month_col = map_option (boolean_index (map (\<lambda>r. year_of (order_date r) = Y) (records df)))
                                (order_month_col df),
            year_col = Some (map (\<lambda>r. year_of (order_date r))
                                  (filter (\<lambda>r. year_of (order_date r) = Y) (records df))) \<rparr>)"
proof -
  let ?yr = "\<lambda>r. year_of (order_date r)"
  have m1: "boolean_index (map (\<lambda>r. ?yr r = Y) (records df)) (records df)
      = filter (\<lambda>r. ?yr r = Y) (records df)"
    by (rule boolean_index_map)
  have m2: "boolean_index (map (\<lambda>r. ?yr r = Y) (records df)) (map ?yr (records df))
      = map ?yr (filter (\<lambda>r. ?yr r = Y) (records df))"
    by (rule boolean_index_map2)
  show ?thesis
    by (simp add: year_filter_def assign_year_def seq_def expr_def set_year_def year_values_def
        and_then_def dt_def filter_by_year_def Let_def comp_def m1 m2 assms)
qed

lemma year_filter_object:
  assumes "order_date_dtype df \<noteq> Datetime64"
  shows "year_filter Y df = (df, Inl AttributeError)"
  by (simp add: year_filter_def assign_year_def seq_def expr_def year_values_def
      and_then_def dt_object[OF assms])

lemma load_data_dtype:
  "order_date_dtype (load_data csv) = Datetime64 \<longleftrightarrow>
     csv \<noteq> [] \<and> list_all (\<lambda>r. to_datetime_ok (order_date r)) csv"
  by (simp add: load_data_def)

lemma plain_dates_ready:
  assumes "plain_dates csv"
  shows "order_date_dtype (load_data csv) = Datetime64"
    and "list_all (\<lambda>r. ts_min \<le> to_month_start (order_date r)) (records (load_data csv))"
  using assms by (auto simp: plain_dates_def load_data_def list_all_iff)

lemma plain_dates_example: "plain_dates example_rows"
  by code_simp

lemma load_data_empty_dtype: "order_date_dtype (load_data []) \<noteq> Datetime64"
  by (simp add: load_data_def)

section \<open>C7: the year filter\<close>

text \<open>
  C7 as stated fails on the empty record set: no record has the year 2024, yet the year
  filter, and the Trends branch it is part of, raises AttributeError instead of
  returning an empty frame.
\<close>

theorem year_filter_empty_counterexample:
  "records (load_data []) = [] \<and>
   snd (year_filter 2024 (load_data [])) = Inl AttributeError \<and>
   snd (trends_page 2024 (load_data [])) = Inl AttributeError"
  by (simp add: year_filter_object[OF load_data_empty_dtype]
      trends_page_object[OF load_data_empty_dtype]) (simp add: load_data_def)

text \<open>
  C7, amended. For every non-empty record set whose order dates are all dates that
  datetime64[ns] can hold, and every year Y, the year filter returns without raising
  exactly the records whose order date has calendar year Y, in their original relative
  order, and the empty frame when Y is the year of no record; so does the Trends branch
  on a file it can work on. On the empty record set, or when a cell is no such date, the
  filter and the branch raise AttributeError.
\<close>

theorem filter_by_year_exact:
  "(csv \<noteq> [] \<and> list_all (\<lambda>r. to_datetime_ok (order_date r)) csv \<longrightarrow>
      (\<exists>fd. snd (year_filter Y (load_data csv)) = Inr fd \<and>
         records fd = filter (\<lambda>r. year_of (order_date r) = Y) csv \<and>
         subseq (records fd) csv \<and>
         (Y \<notin> set (map (\<lambda>r. year_of (order_date r)) csv) \<longrightarrow> records fd = []))) \<and>
   (plain_dates csv \<longrightarrow>
      (\<exists>out. snd (trends_page Y (load_data csv)) = Inr out \<and>
         records (t_filtered_df out) = filter (\<lambda>r. year_of (order_date r) = Y) csv)) \<and>
   (csv = [] \<or> \<not> list_all (\<lambda>r. to_datetime_ok (order_date r)) csv \<longrightarrow>
      snd (year_filter Y (load_data csv)) = Inl AttributeError \<and>
      snd (trends_page Y (load_data csv)) = Inl AttributeError)"
proof (intro conjI impI)
  assume a: "csv \<noteq> [] \<and> list_all (\<lambda>r. to_datetime_ok (order_date r)) csv"
  then have d: "order_date_dtype (load_data csv) = Datetime64"
    by (simp add: load_data_dtype)
  have e: "Y \<notin> set (map (\<lambda>r. year_of (order_date r)) csv) \<Longrightarrow>
      filter (\<lambda>r. year_of (order_date r) = Y) csv = []"
    by (auto simp: filter_empty_conv)
  have r: "records (load_data csv) = csv"
    by (simp add: load_data_def)
  show "\<exists>fd. snd (year_filter Y (load_data csv)) = Inr fd \<and>
         records fd = filter (\<lambda>r. year_of (order_date r) = Y) csv \<and>
         subseq (records fd) csv \<and>
         (Y \<notin> set (map (\<lambda>r. year_of (order_date r)) csv) \<longrightarrow> records fd = [])"
    using e by (simp add: year_filter_result[OF d] r)
next
  assume p: "plain_dates csv"
  have r: "records (load_data csv) = csv"
    by (simp add: load_data_def)
  show "\<exists>out. snd (trends_page Y (load_data csv)) = Inr out \<and>
         records (t_filtered_df out) = filter (\<lambda>r. year_of (order_date r) = Y) csv"
    by (simp add: trends_page_result[OF plain_dates_ready[OF p]] r)
next
  assume "csv = [] \<or> \<not> list_all (\<lambda>r. to_datetime_ok (order_date r)) csv"
  then have d: "order_date_dtype (load_data csv) \<noteq> Datetime64"
    by (auto simp: load_data_def)
  show "snd (year_filter Y (load_data csv)) = Inl AttributeError"
    by (simp add: year_filter_object[OF d])
  show "snd (trends_page Y (load_data csv)) = Inl AttributeError"
    by (simp add: trends_page_object[OF d])
qed

theorem filter_by_year_exact_witness:
  "example_rows \<noteq> [] \<and> list_all (\<lambda>r. to_datetime_ok (order_date r)) example_rows \<and>
   plain_dates example_rows \<and>
   1999 \<notin> set (map (\<lambda>r. year_of (order_date r)) example_rows) \<and>
   (\<exists>fd. snd (year_filter 1999 (load_data example_rows)) = Inr fd \<and> records fd = []) \<and>
   (\<exists>out. snd (trends_page 1999 (load_data example_rows)) = Inr out \<and>
      records (t_filtered_df out) = []) \<and>
   snd (year_filter 1999 (load_data [])) = Inl AttributeError"
proof -
  have a: "example_rows \<noteq> []" "list_all (\<lambda>r. to_datetime_ok (order_date r)) example_rows"
    using plain_dates_example by (auto simp: plain_dates_def list_all_iff)
  have h: "1999 \<notin> set (map (\<lambda>r. year_of (order_date r)) example_rows)"
    by (simp add: example_rows_def mk_txn_def year_of_def)
  then have f: "filter (\<lambda>r. year_of (order_date r) = 1999) example_rows = []"
    by (auto simp: filter_empty_conv)
  from filter_by_year_exact[of example_rows 1999] filter_by_year_exact[of "[]" 1999]
    a h f plain_dates_example
  show ?thesis
    by auto
qed

section \<open>C6: what a page does to the loaded frame\<close>

lemma run_page_reads_only:
  assumes "p \<noteq> Trends"
  shows "fst (run_page p Y df) = df"
  using assms
  by (cases p)
    (auto simp: run_page_def overview_page_def category_page_def region_page_def
      segment_page_def seq_def expr_def ret_def split: sum.splits prod.splits)

lemma run_page_trends: "run_page Trends Y df = seq (trends_page Y) (\<lambda>out. ret (Trends_out out)) df"
  by (simp add: run_page_def)

text \<open>
  C6 as stated fails: after the Trends page has run, the frame that \<open>load_data\<close>
  returned has the two columns Order Month and Year that it did not have before.
\<close>

theorem snapshot_columns_counterexample:
  "columns (fst (run_page Trends 2024 (load_data example_rows))) =
     [''Order ID'', ''Order Date'', ''Category'', ''Sub-Category'', ''Region'', ''Segment'',
      ''Sales'', ''Profit'', ''Discount'', ''Quantity'', ''Order Month'', ''Year''] \<and>
   columns (load_data example_rows) =
     [''Order ID'', ''Order Date'', ''Category'', ''Sub-Category'', ''Region'', ''Segment'',
      ''Sales'', ''Profit'', ''Discount'', ''Quantity'']"
  by (simp add: run_page_trends seq_def ret_def
      trends_page_result[OF plain_dates_ready[OF plain_dates_example]] columns_def)
    (simp add: load_data_def)

text \<open>
  C6, amended. Every page but Trends (so the KPIs, the Overview monthly trend and the group
  summaries) leaves the loaded frame exactly as it found it, whether its computations
  raise or not. On a file whose Order Date column it can work on, the Trends page (monthly
  trend and year filter) runs to its end and adds the derived columns Order Month and Year
  to the frame in place, changing nothing else: same rows, same original columns. On a
  frame whose Order Date column is not a datetime column it raises AttributeError at its
  first statement and leaves the frame as it was.
\<close>

theorem snapshot_frame_effect:
  "(p \<noteq> Trends \<longrightarrow> fst (run_page p Y df) = df) \<and>
   (plain_dates csv \<longrightarrow>
      (\<exists>out. snd (run_page Trends Y (load_data csv)) = Inr out) \<and>
      fst (run_page Trends Y (load_data csv)) =
        (load_data csv)\<lparr> order_month_col := Some (map (\<lambda>r. to_month_start (order_date r)) csv),
                         year_col := Some (map (\<lambda>r. year_of (order_date r)) csv) \<rparr> \<and>
      records (fst (run_page Trends Y (load_data csv))) = csv \<and>
      columns (fst (run_page Trends Y (load_data csv)))
        = columns (load_data csv) @ [''Order Month'', ''Year'']) \<and>
   (order_date_dtype df \<noteq> Datetime64 \<longrightarrow> run_page Trends Y df = (df, Inl AttributeError))"
proof (intro conjI impI)
  assume "p \<noteq> Trends"
  then show "fst (run_page p Y df) = df"
    by (rule run_page_reads_only)
next
  assume "order_date_dtype df \<noteq> Datetime64"
  then show "run_page Trends Y df = (df, Inl AttributeError)"
    by (simp add: run_page_trends seq_def trends_page_object)
next
  assume p: "plain_dates csv"
  note res = trends_page_result[OF plain_dates_ready[OF p], of Y]
  have r: "records (load_data csv) = csv"
    by (simp add: load_data_def)
  show "\<exists>out. snd (run_page Trends Y (load_data csv)) = Inr out"
    by (simp add: run_page_trends seq_def ret_def res)
  show "fst (run_page Trends Y (load_data csv)) =
        (load_data csv)\<lparr> order_month_col := Some (map (\<lambda>r. to_month_start (order_date r)) csv),
                         year_col := Some (map (\<lambda>r. year_of (order_date r)) csv) \<rparr>"
    by (simp add: run_page_trends seq_def ret_def res r)
  show "records (fst (run_page Trends Y (load_data csv))) = csv"
    by (simp add: run_page_trends seq_def ret_def res r)
  show "columns (fst (run_page Trends Y (load_data csv)))
        = columns (load_data csv) @ [''Order Month'', ''Year'']"
    by (simp add: run_page_trends seq_def ret_def res columns_def) (simp add: load_data_def)
qed

theorem snapshot_frame_effect_witness:
  "Overview \<noteq> Trends \<and>
   fst (run_page Overview 2024 (load_data example_rows)) = load_data example_rows \<and>
   plain_dates example_rows \<and>
   records (fst (run_page Trends 2024 (load_data example_rows))) = example_rows \<and>
   order_date_dtype (load_data []) \<noteq> Datetime64 \<and>
   run_page Trends 2024 (load_data []) = (load_data [], Inl AttributeError)"
  using snapshot_frame_effect[of Overview 2024 "load_data example_rows" example_rows]
    snapshot_frame_effect[of Overview 2024 "load_data []" example_rows]
    plain_dates_example load_data_empty_dtype
  by simp

section \<open>C3: the monthly trend series\<close>

lemma groupby_zip_keys:
  "map fst (sum_sales_profit_discount (groupby fst (zip (map g rows) rows))) = group_keys (map g rows)"
  by (simp add: sum_sales_profit_discount_def groupby_def comp_def case_prod_beta)

lemma groupby_zip_key_set:
  "fst ` set (sum_sales_profit_discount (groupby fst (zip (map g rows) rows))) = g ` set rows"
  using arg_cong[OF groupby_zip_keys, of set g rows] by (simp add: group_keys_set)

text \<open>
  The two series of the Trends page (lines 196 and 228) have a bucket exactly for the
  months that have a record, in chronological order.
\<close>

lemma trends_monthly_buckets:
  assumes "plain_dates csv"
  shows "\<exists>out. snd (trends_page Y (load_data csv)) = Inr out \<and>
      sorted_wrt (<) (map fst (t_monthly out)) \<and>
      set (map fst (t_monthly out)) = (\<lambda>r. to_month_start (order_date r)) ` set csv \<and>
      sorted_wrt (<) (map fst (t_monthly_filtered out)) \<and>
      set (map fst (t_monthly_filtered out))
        = (\<lambda>r. to_month_start (order_date r)) ` {r \<in> set csv. year_of (order_date r) = Y}"
proof -
  have r: "records (load_data csv) = csv"
    by (simp add: load_data_def)
  show ?thesis
    by (simp add: trends_page_result[OF plain_dates_ready[OF assms]] r groupby_zip_keys
        group_keys_strict groupby_zip_key_set)
qed

text \<open>
  C3 fails on the Overview page: with orders in January and March 2024 only, the monthly
  sales series of line 165 has a bucket for February 2024, with Sales 0, while the series
  of the Trends page for the same records has the buckets of January and March only.
\<close>

theorem overview_monthly_zero_fills_gap:
  "map order_date example_rows = [(2024, 1, 5), (2024, 1, 20), (2024, 3, 1)] \<and>
   monthly_sales (load_data example_rows) =
     Inr [((2024, 1, 31), Fin 150), ((2024, 2, 29), Fin 0), ((2024, 3, 31), Fin 30)] \<and>
   map_sum id t_monthly (snd (trends_page 2024 (load_data example_rows))) =
     Inr [((2024, 1, 1), Fin 150, Fin 0, Fin 0), ((2024, 3, 1), Fin 30, Fin 0, Fin 0)]"
  by code_simp

section \<open>C9: the tail of the forecast\<close>

lemma slice_from_neg: "0 < n \<Longrightarrow> slice_from (- int n) xs = drop (length xs - n) xs"
  by (auto simp: slice_from_def Let_def max_def nat_diff_distrib')

text \<open>
  C9. For every forecast table and every n, \<open>tail\<close> returns the last n rows in their
  original order when n is at most the number of rows, and all rows when n is greater;
  the table the page shows is the tail of 5 rows.
\<close>

theorem tail_last_rows_clamped:
  "(n \<le> length xs \<longrightarrow>
      tail (int n) xs = drop (length xs - n) xs \<and> length (tail (int n) xs) = n \<and>
      suffix (tail (int n) xs) xs) \<and>
   (length xs < n \<longrightarrow> tail (int n) xs = xs) \<and>
   forecast_table (forecasting_page xs) = map rename_columns (tail 5 xs)"
proof -
  have t: "tail (int n) xs = drop (length xs - n) xs"
    by (cases "n = 0") (simp_all add: tail_def slice_from_neg)
  show ?thesis
    unfolding t by (simp add: forecasting_page_def suffix_drop)
qed

theorem tail_last_rows_clamped_witness:
  "1 \<le> length example_forecast \<and>
   tail 1 example_forecast = [\<lparr> ds = ''2018-01-31'', yhat = 20, yhat_lower = 18, yhat_upper = 25 \<rparr>] \<and>
   length example_forecast < 5 \<and> tail 5 example_forecast = example_forecast"
proof -
  have a: "1 \<le> length example_forecast" and b: "length example_forecast < 5"
    by (simp_all add: example_forecast_def)
  from a b tail_last_rows_clamped[of 1 example_forecast] tail_last_rows_clamped[of 5 example_forecast]
  show ?thesis by (simp add: example_forecast_def)
qed

section \<open>Clustering page: the summary table\<close>

lemma summary_df_clusters: "map Cluster (summary_df cs) = group_keys (map cluster cs)"
  by (simp add: summary_df_def groupby_def comp_def)

text \<open>
  C10. For every cluster table, the summary has exactly one row for each distinct cluster
  id of the input, the rows are in strictly ascending order of cluster id, and reordering
  the input rows does not change the order of the summary's ids.
\<close>

theorem cluster_summary_ascending:
  "sorted_wrt (<) (map Cluster (summary_df cs)) \<and>
   set (map Cluster (summary_df cs)) = cluster ` set cs \<and>
   (mset cs' = mset cs \<longrightarrow> map Cluster (summary_df cs') = map Cluster (summary_df cs))"
proof -
  have "mset cs' = mset cs \<Longrightarrow> group_keys (map cluster cs') = group_keys (map cluster cs)"
    by (rule group_keys_cong) (auto dest: mset_eq_setD)
  then show ?thesis
    by (simp add: summary_df_clusters group_keys_strict group_keys_set)
qed

theorem cluster_summary_ascending_witness:
  "mset (rev example_clusters) = mset example_clusters \<and>
   map Cluster (summary_df (rev example_clusters)) = [0, 4] \<and>
   map Cluster (summary_df example_clusters) = [0, 4]"
proof -
  have h: "mset (rev example_clusters) = mset example_clusters" by simp
  have v: "map Cluster (summary_df example_clusters) = [0, 4]"
    by (simp add: summary_df_clusters group_keys_def example_clusters_def mk_point_def)
  from h cluster_summary_ascending[of example_clusters "rev example_clusters"] v
  show ?thesis by simp
qed









section \<open>C4: the order of the group summary rows\<close>

lemma sort_values_mset: "mset (sort_values_sales_desc t) = mset t"
  by (simp add: sort_values_sales_desc_def)

lemma sort_values_descending: "sorted (rev (map (\<lambda>r. fst (snd r)) (sort_values_sales_desc t)))"
  by (simp add: sort_values_sales_desc_def rev_map[symmetric])

lemma summary_keys_ascending:
  "sorted_wrt (<) (map fst (sum_sales_profit (groupby key df))) \<and>
   set (map fst (sum_sales_profit (groupby key df))) = key ` set df"
  by (simp only: sum_sales_profit_keys groupby_keys group_keys_strict group_keys_set set_map simp_thms)

text \<open>
  C4 as stated fails: with the categories first seen in the order Technology, Furniture,
  the category summary lists Furniture before Technology.
\<close>

theorem group_rows_first_seen_counterexample:
  "map fst (cat_summary example_rows) = [''Furniture'', ''Technology''] \<and>
   spec_first_seen_order (map category example_rows) = [''Technology'', ''Furniture'']"
  by code_simp

text \<open>
  C4, amended. For every record set and every grouping dimension (category, region,
  segment, and the pair category + sub-category), the summary has one row per distinct
  key and its rows are in strictly ascending key order, whatever the order of the keys in
  the input. The tables sorted by Sales are rearrangements of their summaries with Sales
  non-increasing from top to bottom.
\<close>

theorem group_rows_key_order:
  "sorted_wrt (<) (map fst (cat_summary df)) \<and> set (map fst (cat_summary df)) = category ` set df \<and>
   sorted_wrt (<) (map fst (region_summary df)) \<and> set (map fst (region_summary df)) = region ` set df \<and>
   sorted_wrt (<) (map fst (segment_summary df)) \<and> set (map fst (segment_summary df)) = segment ` set df \<and>
   sorted_wrt (<) (map fst (subcat_summary df)) \<and>
   set (map fst (subcat_summary df)) = (\<lambda>r. (category r, sub_category r)) ` set df \<and>
   sorted (rev (map (\<lambda>r. fst (snd r)) (subcat_table df))) \<and> mset (subcat_table df) = mset (subcat_summary df) \<and>
   sorted (rev (map (\<lambda>r. fst (snd r)) (region_table df))) \<and> mset (region_table df) = mset (region_summary df) \<and>
   sorted (rev (map (\<lambda>r. fst (snd r)) (segment_table df))) \<and> mset (segment_table df) = mset (segment_summary df)"
  unfolding cat_summary_def region_summary_def segment_summary_def subcat_summary_def
    subcat_table_def region_table_def segment_table_def
  by (intro conjI summary_keys_ascending[THEN conjunct1] summary_keys_ascending[THEN conjunct2]
      sort_values_mset sort_values_descending)

section \<open>C5: loading the forecast\<close>

text \<open>
  C5 as stated fails: on a forecast whose first row has its lower bound above the point
  forecast and whose dates decrease, the page emits no diagnostic.
\<close>

theorem forecast_not_validated_counterexample:
  "\<not> spec_forecast_valid example_forecast \<and>
   diagnostics (forecasting_page example_forecast) = [] \<and>
   forecast_data (forecasting_page example_forecast) = example_forecast"
  by (simp add: spec_forecast_valid_def spec_interval_ordered_def example_forecast_def forecasting_page_def)

text \<open>
  C5, amended. The Forecasting page checks nothing and emits no diagnostic: for every
  forecast table, valid or not, it holds exactly the rows that were read.
\<close>

theorem forecast_loaded_unchecked:
  "diagnostics (forecasting_page csv) = [] \<and> forecast_data (forecasting_page csv) = csv"
  by (simp add: forecasting_page_def)

end
